theory Spec2Isabelle
  imports Complex_Main "HOL-Library.Product_Lexorder" "HOL-Library.Char_ord"
    "HOL-Library.List_Lexorder"
begin

section \<open>Python strings\<close>

text \<open>
  A Python \<open>str\<close> is modelled as a \<open>string\<close> whose characters are the code points
  0..255 (Latin-1). The functions below are the \<open>str\<close> methods the auto-reply engine
  calls, restricted to that range.
\<close>

definition isspace :: "char \<Rightarrow> bool" where
  \<comment> \<open>\<open>str.isspace\<close> on one code point: TAB..CR, FS..US, space, NEL, NBSP.\<close>
  "isspace c =
     (let n = (of_char c :: nat)
      in (9 \<le> n \<and> n \<le> 13) \<or> (28 \<le> n \<and> n \<le> 32) \<or> n = 133 \<or> n = 160)"

definition py_strip :: "string \<Rightarrow> string" where
  \<comment> \<open>\<open>s.strip()\<close>\<close>
  "py_strip s = rev (dropWhile isspace (rev (dropWhile isspace s)))"

definition lower_char :: "char \<Rightarrow> char" where
  "lower_char c =
     (let n = (of_char c :: nat)
      in if (65 \<le> n \<and> n \<le> 90) \<or> (192 \<le> n \<and> n \<le> 222 \<and> n \<noteq> 215)
         then char_of (n + 32) else c)"

definition py_lower :: "string \<Rightarrow> string" where
  \<comment> \<open>\<open>s.lower()\<close>\<close>
  "py_lower s = map lower_char s"

definition startswith :: "string \<Rightarrow> string \<Rightarrow> bool" where
  \<comment> \<open>\<open>s.startswith(k)\<close>\<close>
  "startswith s k = (take (length k) s = k)"

definition endswith :: "string \<Rightarrow> string \<Rightarrow> bool" where
  \<comment> \<open>\<open>s.endswith(k)\<close>\<close>
  "endswith s k = (length k \<le> length s \<and> drop (length s - length k) s = k)"

fun py_in :: "string \<Rightarrow> string \<Rightarrow> bool" where
  \<comment> \<open>\<open>k in s\<close>: \<open>k\<close> occurs in \<open>s\<close> as a contiguous substring\<close>
  "py_in k [] = (k = [])"
| "py_in k (c # cs) = (startswith (c # cs) k \<or> py_in k cs)"

fun split_from :: "string \<Rightarrow> string \<Rightarrow> string list" where
  \<comment> \<open>the words of the rest of the string; the first argument is the word being read, reversed\<close>
  "split_from cur [] = (if cur = [] then [] else [rev cur])"
| "split_from cur (c # cs) =
     (if isspace c then (if cur = [] then split_from [] cs else rev cur # split_from [] cs)
      else split_from (c # cur) cs)"

definition py_split :: "string \<Rightarrow> string list" where
  \<comment> \<open>\<open>s.split()\<close>: the maximal runs of non-whitespace\<close>
  "py_split s = split_from [] s"

definition digit_char :: "nat \<Rightarrow> char" where
  "digit_char d = ''0123456789'' ! d"

fun str_nat :: "nat \<Rightarrow> string" where
  "str_nat n = (if n < 10 then [digit_char n] else str_nat (n div 10) @ [digit_char (n mod 10)])"

definition str_int :: "int \<Rightarrow> string" where
  \<comment> \<open>\<open>str(i)\<close> for an \<open>int\<close>\<close>
  "str_int i = (if i < 0 then CHR ''-'' # str_nat (nat (- i)) else str_nat (nat i))"

section \<open>Library functions taken as parameters\<close>

text \<open>
  What \<open>json.loads\<close> returns. Only the top-level shape and the value under the key
  \<open>content\<close> are inspected by the engine.
\<close>

datatype pyjson =
    JNull
  | JBool bool
  | JInt int
  | JReal real
  | JString string
  | JArray "pyjson list"
  | JObject "(string \<times> pyjson) list"

text \<open>
  The standard-library functions whose code is not part of the repository:
  \<^item> \<open>re_search pattern s ignorecase\<close> is \<open>bool(re.search(pattern, s, flags))\<close>, and
    \<open>None\<close> when \<open>re.search\<close> raises (a pattern that does not compile);
  \<^item> \<open>re_escape\<close> is \<open>re.escape\<close>;
  \<^item> \<open>seq_ratio a b\<close> is \<open>difflib.SequenceMatcher(None, a, b).ratio()\<close>;
  \<^item> \<open>md5_hex8 s\<close> is \<open>hashlib.md5(s.encode()).hexdigest()[:8]\<close>;
  \<^item> \<open>json_loads s\<close> is \<open>json.loads(s)\<close>, and \<open>None\<close> when it raises;
  \<^item> \<open>set_order S\<close> is \<open>list(S)\<close> for a \<open>set\<close> \<open>S\<close> of strings: the order in which
    the hash table enumerates its elements;
  \<^item> \<open>localtime_ok t\<close> says that \<open>time.localtime(t)\<close> returns; it raises
    \<open>OverflowError\<close> or \<open>OSError\<close> on a timestamp outside the range of the platform.
\<close>

record pylib =
  re_search :: "string \<Rightarrow> string \<Rightarrow> bool \<Rightarrow> bool option"
  re_escape :: "string \<Rightarrow> string"
  seq_ratio :: "string \<Rightarrow> string \<Rightarrow> real"
  md5_hex8 :: "string \<Rightarrow> string"
  json_loads :: "string \<Rightarrow> pyjson option"
  set_order :: "string set \<Rightarrow> string list"
  localtime_ok :: "int \<Rightarrow> bool"

section \<open>The persistence layer (utils/database.py)\<close>

text \<open>A row of table \<open>auto_reply_rules\<close>.\<close>

record rule =
  rule_id :: int
  rule_account_uid :: string
  keyword :: string
  reply_content :: string
  match_type :: string
  case_sensitive :: bool
  enabled :: bool
  priority :: int
  description :: string
  created_time :: real
  updated_time :: real

text \<open>A row of table \<open>auto_reply_logs\<close>.\<close>

record reply_log =
  log_account_uid :: string
  log_sender_uid :: string
  received_message :: string
  reply_message :: string
  keyword_matched :: string
  log_match_type :: string
  log_created_time :: real
  log_session_type :: int

text \<open>A row of table \<open>auto_reply_stats\<close> (one per account).\<close>

record reply_stats =
  total_replies :: int
  today_replies :: int
  last_reply_time :: real
  last_update_date :: string

text \<open>A row of table \<open>account_configs\<close> (one per account).\<close>

record account_config =
  cfg_auto_reply_enabled :: bool
  cfg_reply_delay_min :: int
  cfg_reply_delay_max :: int
  cfg_daily_limit :: int
  cfg_scan_interval :: int

record database =
  auto_reply_rules :: "rule list"
  auto_reply_logs :: "reply_log list"
  auto_reply_stats :: "string \<rightharpoonup> reply_stats"
  account_configs :: "string \<rightharpoonup> account_config"

definition get_auto_reply_rules :: "database \<Rightarrow> string \<Rightarrow> bool \<Rightarrow> rule list" where
  \<comment> \<open>\<open>SELECT ... WHERE account_uid = ? [AND enabled = 1]
      ORDER BY priority DESC, created_time ASC\<close>; rows equal in both keep the order of
      the table\<close>
  "get_auto_reply_rules d uid enabled_only =
     sort_key (\<lambda>r. (- priority r, created_time r))
       (filter (\<lambda>r. rule_account_uid r = uid \<and> (if enabled_only then enabled r else True))
          (auto_reply_rules d))"

definition get_account_config :: "database \<Rightarrow> string \<Rightarrow> account_config option" where
  "get_account_config d uid = account_configs d uid"

definition get_reply_stats :: "database \<Rightarrow> string \<Rightarrow> reply_stats option" where
  "get_reply_stats d uid = auto_reply_stats d uid"

definition update_stats :: "database \<Rightarrow> string \<Rightarrow> real \<Rightarrow> string \<Rightarrow> database" where
  \<comment> \<open>\<open>_update_stats\<close>: \<open>today\<close> is \<open>date.today().isoformat()\<close>\<close>
  "update_stats d uid current_time today =
     (case auto_reply_stats d uid of
        Some st \<Rightarrow>
          (let today_n = (if last_update_date st \<noteq> today then 0 else today_replies st)
           in d\<lparr>auto_reply_stats := (auto_reply_stats d)(uid \<mapsto>
                  st\<lparr>total_replies := total_replies st + 1, today_replies := today_n + 1,
                     last_reply_time := current_time, last_update_date := today\<rparr>)\<rparr>)
      | None \<Rightarrow>
          d\<lparr>auto_reply_stats := (auto_reply_stats d)(uid \<mapsto>
               \<lparr>total_replies = 1, today_replies = 1,
                last_reply_time = current_time, last_update_date = today\<rparr>)\<rparr>)"

definition log_auto_reply ::
  "database \<Rightarrow> string \<Rightarrow> string \<Rightarrow> string \<Rightarrow> string \<Rightarrow> string \<Rightarrow> string \<Rightarrow> int \<Rightarrow> real \<Rightarrow> string
     \<Rightarrow> database" where
  \<comment> \<open>\<open>log_auto_reply\<close>: insert the log row, then \<open>_update_stats\<close>\<close>
  "log_auto_reply d uid sender received reply kw mt stype current_time today =
     update_stats
       (d\<lparr>auto_reply_logs := auto_reply_logs d @
            [\<lparr>log_account_uid = uid, log_sender_uid = sender, received_message = received,
              reply_message = reply, keyword_matched = kw, log_match_type = mt,
              log_created_time = current_time, log_session_type = stype\<rparr>]\<rparr>)
       uid current_time today"

definition AutoReplyDatabase_methods :: "string list" where
  \<comment> \<open>every method class \<open>AutoReplyDatabase\<close> defines\<close>
  "AutoReplyDatabase_methods =
     [''__init__'', ''init_database'', ''log_auto_reply'', ''_update_stats'',
      ''save_auto_reply_rule'', ''get_auto_reply_rules'', ''delete_auto_reply_rule'',
      ''toggle_rule_status'', ''save_account_config'', ''get_account_config'',
      ''get_reply_logs'', ''get_reply_stats'', ''delete_old_logs'', ''get_daily_stats'',
      ''get_keyword_stats'']"

section \<open>The rule matcher (MessageManager.match_auto_reply)\<close>

text \<open>
  This section is the matcher as it computes its result: the guards, the order of the
  rules, the predicates of the match kinds and the handler of the loop, on a console on
  which every \<open>print\<close> succeeds. The same function with each of its prints and with its
  outer handler is \<open>match_auto_reply_io\<close>, further down; the two agree whenever the
  prints succeed (lemma \<open>match_auto_reply_io_console_ok\<close>).
\<close>

text \<open>The dictionary \<open>match_auto_reply\<close> returns for a matched rule.\<close>

record reply_match =
  m_keyword :: string
  m_keyword_matched :: string
  m_reply_content :: string
  m_match_type :: string
  m_rule_id :: int
  m_priority :: int

definition word_anchor :: string where
  \<comment> \<open>the two characters backslash, b\<close>
  "word_anchor = [CHR 0x5C, CHR ''b'']"

definition rule_predicate :: "pylib \<Rightarrow> rule \<Rightarrow> string \<Rightarrow> string \<Rightarrow> bool option" where
  \<comment> \<open>the \<open>try\<close> block of the loop body: the value of \<open>matched\<close>, or \<open>None\<close> when the
      block raises. \<open>kw\<close> is the rule's keyword after \<open>strip()\<close>.\<close>
  "rule_predicate lib r kw message_text =
     (let text_to_match = (if case_sensitive r then message_text else py_lower message_text);
          keyword_to_match = (if case_sensitive r then kw else py_lower kw)
      in if match_type r = ''exact'' then
           Some (py_strip text_to_match = py_strip keyword_to_match)
         else if match_type r = ''contains'' then
           Some (py_in keyword_to_match text_to_match)
         else if match_type r = ''startswith'' then
           Some (startswith text_to_match keyword_to_match)
         else if match_type r = ''endswith'' then
           Some (endswith text_to_match keyword_to_match)
         else if match_type r = ''regex'' then
           re_search lib kw message_text (\<not> case_sensitive r)
         else if match_type r = ''word_boundary'' then
           re_search lib (word_anchor @ re_escape lib keyword_to_match @ word_anchor)
             text_to_match (\<not> case_sensitive r)
         else if match_type r = ''fuzzy'' then
           Some (seq_ratio lib text_to_match keyword_to_match \<ge> 4 / 5)
         else if match_type r = ''fuzzy_contains'' then
           (if length keyword_to_match \<le> 3 then Some (py_in keyword_to_match text_to_match)
            else Some (list_ex (\<lambda>word. py_in word text_to_match)
                         (filter (\<lambda>word. length word > 1) (py_split keyword_to_match))))
         else Some False)"

definition match_result :: "rule \<Rightarrow> reply_match" where
  "match_result r =
     \<lparr>m_keyword = py_strip (keyword r), m_keyword_matched = py_strip (keyword r),
      m_reply_content = reply_content r, m_match_type = match_type r,
      m_rule_id = rule_id r, m_priority = priority r\<rparr>"

fun match_rules :: "pylib \<Rightarrow> string \<Rightarrow> rule list \<Rightarrow> reply_match option" where
  \<comment> \<open>the \<open>for\<close> loop over the sorted rules\<close>
  "match_rules lib message_text [] = None"
| "match_rules lib message_text (r # rules) =
     (let kw = py_strip (keyword r)
      in if kw = [] then match_rules lib message_text rules
         else (case rule_predicate lib r kw message_text of
                 None \<Rightarrow> match_rules lib message_text rules
               | Some matched \<Rightarrow>
                   if matched then Some (match_result r)
                   else match_rules lib message_text rules))"

definition match_auto_reply :: "pylib \<Rightarrow> database \<Rightarrow> string \<Rightarrow> string \<Rightarrow> reply_match option" where
  "match_auto_reply lib d uid message_text =
     (if message_text = [] \<or> py_strip message_text = [] then None
      else let rules = get_auto_reply_rules d uid True
           in if rules = [] then None
              else match_rules lib message_text (sort_key (\<lambda>x. - priority x) rules))"

section \<open>The engine (core/message_manager.py)\<close>

text \<open>
  The worker is one thread per account and is modelled sequentially; the lock around the
  two sets only guards against other threads.

  The worker writes a log line at every step. What a line needs from the data of the
  remote service can raise, and that is modelled: \<open>time.localtime\<close> on the timestamp of
  a session (the overview of the first ten sessions, the line before a session is
  scanned) and of a message (the preview of the first three messages of a session, the
  line before the checks of a message), and the slice of the preview's text. The first
  three abort the pass, the last ends the message. \<open>print\<close> itself is taken to succeed
  in the worker, and \<open>time.localtime\<close> on the clock of the machine too. The matcher
  called by \<open>process_message\<close> is the one of the previous section, on a console that
  takes every line; its prints and handlers are modelled apart, further down.

  Exceptions are values. Only their kind matters to the handlers, which catch
  \<open>Exception\<close>; the string is the attribute name or the message. \<open>ReError\<close> is what
  \<open>re.search\<close> raises on a pattern that does not compile, \<open>PrintError\<close> what \<open>print\<close>
  raises on a line the console does not take (\<open>UnicodeEncodeError\<close>, \<open>OSError\<close>).
\<close>

datatype exn =
    AttributeError string
  | ValueError string
  | TypeError string
  | OSError string
  | ReError
  | PrintError

text \<open>
  One message of \<open>fetch_session_msgs\<close>, with the fields the engine reads. \<open>None\<close> is a
  key the dictionary does not have, so that \<open>msg.get(key, default)\<close> yields the default.
\<close>

record message =
  sender_uid :: "int option"
  msg_type :: "int option"
  timestamp :: "int option"
  msg_key :: "int option"
  msg_seqno :: "int option"
  content :: "string option"

text \<open>
  One entry of the session list; \<open>last_msg_timestamp\<close> is
  \<open>session.get('last_msg', {}).get('timestamp', 0)\<close>.
\<close>

record chat_session =
  talker_id :: "int option"
  session_type :: "int option"
  last_msg_timestamp :: "int option"

text \<open>
  The state of a \<open>MessageManager\<close>. \<open>attrs\<close> holds the integer configuration attributes
  of the instance by name (\<open>self.daily_limit\<close> is \<open>attrs s ''daily_limit''\<close>): reading
  a name that was never assigned raises \<open>AttributeError\<close>.
\<close>

record manager =
  account_uid :: string
  attrs :: "string \<rightharpoonup> int"
  auto_reply_enabled :: bool
  stop_listening :: bool
  today_reply_count :: int
  processed_messages :: "string set"
  replied_messages :: "string set"
  db :: database

text \<open>
  What one pass of the loop gets from outside: the clock, the calendar date, the answers
  of the remote service and the random source. \<open>send_message_response\<close> is \<open>None\<close> for
  \<open>(True, data)\<close> and \<open>Some error\<close> for \<open>(False, error)\<close>.
\<close>

record world =
  clock :: real
  today_iso :: string
  get_sessions_response :: "string + chat_session list"
  get_session_messages_response :: "int \<Rightarrow> int \<Rightarrow> int \<Rightarrow> string + message list"
  send_message_response :: "int \<Rightarrow> string \<Rightarrow> int \<Rightarrow> string option"
  random_source :: "int \<Rightarrow> int \<Rightarrow> nat"

text \<open>The calls that leave the process, in the order they are made.\<close>

datatype event =
    GetSessions
  | GetSessionMessages int int int
  | Sleep int
  | SendMessage int string int

text \<open>How the handling of one message ended.\<close>

datatype outcome =
    SkippedOwn
  | SkippedNonText
  | SkippedProcessed
  | SkippedStale
  | SkippedEmptyContent
  | SkippedBlankText
  | NoRuleMatched
  | DailyLimitReached
  | Raised exn

definition getattr :: "manager \<Rightarrow> string \<Rightarrow> exn + int" where
  "getattr s name = (case attrs s name of None \<Rightarrow> Inl (AttributeError name) | Some v \<Rightarrow> Inr v)"

definition load_account_config :: "manager \<Rightarrow> manager" where
  "load_account_config s =
     (case get_account_config (db s) (account_uid s) of
        Some config \<Rightarrow>
          s\<lparr>attrs := (attrs s)(''reply_delay_min'' \<mapsto> cfg_reply_delay_min config,
                               ''reply_delay_max'' \<mapsto> cfg_reply_delay_max config,
                               ''daily_limit'' \<mapsto> cfg_daily_limit config,
                               ''scan_interval'' \<mapsto> cfg_scan_interval config)\<rparr>
      | None \<Rightarrow>
          s\<lparr>attrs := (attrs s)(''reply_delay_min'' \<mapsto> 2, ''reply_delay_max'' \<mapsto> 8,
                               ''daily_limit'' \<mapsto> 100, ''scan_interval'' \<mapsto> 8)\<rparr>)"

definition update_today_count :: "string \<Rightarrow> manager \<Rightarrow> manager" where
  \<comment> \<open>\<open>_update_today_count\<close>; the first argument is \<open>datetime.now().date().isoformat()\<close>\<close>
  "update_today_count today s =
     (case get_reply_stats (db s) (account_uid s) of
        Some st \<Rightarrow>
          if last_update_date st = today then s\<lparr>today_reply_count := today_replies st\<rparr>
          else s\<lparr>today_reply_count := 0\<rparr>
      | None \<Rightarrow> s\<lparr>today_reply_count := 0\<rparr>)"

definition init_manager :: "database \<Rightarrow> string \<Rightarrow> string \<Rightarrow> manager" where
  \<comment> \<open>\<open>MessageManager.__init__\<close>; the last argument is the calendar date\<close>
  "init_manager d uid today =
     update_today_count today
       (load_account_config
          \<lparr>account_uid = uid, attrs = Map.empty, auto_reply_enabled = False,
           stop_listening = False, today_reply_count = 0, processed_messages = {},
           replied_messages = {}, db = d\<rparr>)"

definition str_opt :: "int option \<Rightarrow> string" where
  \<comment> \<open>\<open>str(msg.get(key))\<close>\<close>
  "str_opt v = (case v of None \<Rightarrow> ''None'' | Some i \<Rightarrow> str_int i)"

definition fmt_opt :: "int option \<Rightarrow> string" where
  \<comment> \<open>\<open>msg.get(key, '')\<close> inside an f-string\<close>
  "fmt_opt v = (case v of None \<Rightarrow> [] | Some i \<Rightarrow> str_int i)"

definition get_or :: "'a \<Rightarrow> 'a option \<Rightarrow> 'a" where
  \<comment> \<open>\<open>msg.get(key, default)\<close>\<close>
  "get_or dflt v = (case v of None \<Rightarrow> dflt | Some x \<Rightarrow> x)"

definition generate_message_id :: "pylib \<Rightarrow> int \<Rightarrow> message \<Rightarrow> string" where
  \<comment> \<open>\<open>_generate_message_id\<close>\<close>
  "generate_message_id lib talker msg =
     str_int talker @ ''_'' @ fmt_opt (sender_uid msg) @ ''_'' @
     str_int (get_or 0 (timestamp msg)) @ ''_'' @ fmt_opt (msg_key msg) @ ''_'' @
     fmt_opt (msg_seqno msg) @ ''_'' @ md5_hex8 lib (get_or [] (content msg))"

definition mark_processed :: "('a set \<Rightarrow> 'a list) \<Rightarrow> 'a \<Rightarrow> 'a set \<Rightarrow> 'a set" where
  \<comment> \<open>\<open>processed_messages.add(msg_id)\<close>, then the clean-up when the set holds more than
      1000 entries: \<open>list(processed_messages)[:500]\<close> is discarded\<close>
  "mark_processed order msg_id processed =
     (let added = insert msg_id processed
      in if card added > 1000 then added - set (take 500 (order added)) else added)"

fun truthy :: "pyjson \<Rightarrow> bool" where
  "truthy JNull = False"
| "truthy (JBool b) = b"
| "truthy (JInt i) = (i \<noteq> 0)"
| "truthy (JReal x) = (x \<noteq> 0)"
| "truthy (JString t) = (t \<noteq> [])"
| "truthy (JArray xs) = (xs \<noteq> [])"
| "truthy (JObject kvs) = (kvs \<noteq> [])"

definition decode_content :: "pylib \<Rightarrow> string \<Rightarrow> pyjson" where
  \<comment> \<open>the value bound to \<open>message_text\<close>: \<open>json.loads(content_raw).get('content', '')\<close>,
      and \<open>content_raw\<close> itself when that raises\<close>
  "decode_content lib content_raw =
     (case json_loads lib content_raw of
        Some (JObject kvs) \<Rightarrow> (case map_of kvs ''content'' of None \<Rightarrow> JString [] | Some v \<Rightarrow> v)
      | _ \<Rightarrow> JString content_raw)"

definition randint :: "world \<Rightarrow> int \<Rightarrow> int \<Rightarrow> exn + int" where
  \<comment> \<open>\<open>random.randint(a, b)\<close>: some integer of \<open>[a, b]\<close>, \<open>ValueError\<close> on an empty range\<close>
  "randint w a b =
     (if b < a then Inl (ValueError ''empty range'')
      else Inr (a + int (random_source w a b) mod (b - a + 1)))"

definition reply_to ::
  "world \<Rightarrow> int \<Rightarrow> int \<Rightarrow> string \<Rightarrow> reply_match \<Rightarrow> manager \<Rightarrow> manager \<times> event list \<times> outcome" where
  \<comment> \<open>the branch \<open>if reply_result:\<close> of the message loop\<close>
  "reply_to w talker stype msg_id reply_result s =
     (case getattr s ''daily_limit'' of
        Inl e \<Rightarrow> (s, [], Raised e)
      | Inr daily_limit \<Rightarrow>
          if daily_limit > 0 \<and> today_reply_count s \<ge> daily_limit then (s, [], DailyLimitReached)
          else
            (case getattr s ''min_delay'' of
               Inl e \<Rightarrow> (s, [], Raised e)
             | Inr min_delay \<Rightarrow>
                 (case getattr s ''max_delay'' of
                    Inl e \<Rightarrow> (s, [], Raised e)
                  | Inr max_delay \<Rightarrow>
                      (case randint w min_delay max_delay of
                         Inl e \<Rightarrow> (s, [], Raised e)
                       | Inr delay \<Rightarrow>
                           if delay < 0 then (s, [], Raised (ValueError ''sleep length''))
                           else
                             (let sent = [Sleep delay,
                                          SendMessage talker (m_reply_content reply_result) stype]
                              in case send_message_response w talker
                                        (m_reply_content reply_result) stype of
                                   None \<Rightarrow>
                                     (s\<lparr>replied_messages := insert msg_id (replied_messages s)\<rparr>,
                                      sent, Raised (AttributeError ''add_reply_log''))
                                 | Some err \<Rightarrow>
                                     (s, sent, Raised (AttributeError ''add_reply_log'')))))))"

definition process_message ::
  "pylib \<Rightarrow> world \<Rightarrow> int \<Rightarrow> int \<Rightarrow> message \<Rightarrow> manager \<Rightarrow> manager \<times> event list \<times> outcome" where
  \<comment> \<open>the body of \<open>for msg in messages\<close> from the check of the sender on, with the
      \<open>try\<close>/\<open>except\<close> around it\<close>
  "process_message lib w talker stype msg s =
     (if str_opt (sender_uid msg) = account_uid s then (s, [], SkippedOwn)
      else if get_or 0 (msg_type msg) \<noteq> 1 then (s, [], SkippedNonText)
      else
        (let msg_id = generate_message_id lib talker msg
         in if msg_id \<in> processed_messages s then (s, [], SkippedProcessed)
            else if clock w - real_of_int (get_or 0 (timestamp msg)) > 86400
              then (s, [], SkippedStale)
            else
              (let s1 = s\<lparr>processed_messages :=
                           mark_processed (set_order lib) msg_id (processed_messages s)\<rparr>;
                   content_raw = get_or [] (content msg)
               in if content_raw = [] then (s1, [], SkippedEmptyContent)
                  else
                    (case decode_content lib content_raw of
                       JString message_text \<Rightarrow>
                         if message_text = [] \<or> py_strip message_text = []
                         then (s1, [], SkippedBlankText)
                         else
                           (case match_auto_reply lib (db s1) (account_uid s1)
                                   (py_strip message_text) of
                              None \<Rightarrow> (s1, [], NoRuleMatched)
                            | Some reply_result \<Rightarrow> reply_to w talker stype msg_id reply_result s1)
                     | v \<Rightarrow>
                         if truthy v then (s1, [], Raised (AttributeError ''strip''))
                         else (s1, [], SkippedBlankText)))))"

definition stopped :: "manager \<Rightarrow> bool" where
  \<comment> \<open>\<open>self.stop_listening or not self.auto_reply_enabled\<close>\<close>
  "stopped s = (stop_listening s \<or> \<not> auto_reply_enabled s)"

definition handle_message ::
  "pylib \<Rightarrow> world \<Rightarrow> int \<Rightarrow> int \<Rightarrow> message \<Rightarrow> manager \<Rightarrow> manager \<times> event list \<times> outcome" where
  \<comment> \<open>one turn of \<open>for msg in messages\<close>: the first log line formats the timestamp of the
      message, inside the \<open>try\<close>, before any check\<close>
  "handle_message lib w talker stype msg s =
     (if localtime_ok lib (get_or 0 (timestamp msg))
      then process_message lib w talker stype msg s
      else (s, [], Raised (OSError ''localtime'')))"

fun process_messages ::
  "pylib \<Rightarrow> world \<Rightarrow> int \<Rightarrow> int \<Rightarrow> message list \<Rightarrow> manager \<Rightarrow> manager \<times> event list" where
  \<comment> \<open>\<open>for msg in messages\<close>\<close>
  "process_messages lib w talker stype [] s = (s, [])"
| "process_messages lib w talker stype (msg # msgs) s =
     (if stopped s then (s, [])
      else (case handle_message lib w talker stype msg s of
              (s1, ev1, out) \<Rightarrow>
                (case process_messages lib w talker stype msgs s1 of
                   (s2, ev2) \<Rightarrow> (s2, ev1 @ ev2))))"

fun sliceable :: "pyjson \<Rightarrow> bool" where
  \<comment> \<open>\<open>v[:30]\<close> and \<open>len(v)\<close> return\<close>
  "sliceable (JString t) = True"
| "sliceable (JArray xs) = True"
| "sliceable v = False"

definition preview_raises :: "pylib \<Rightarrow> message \<Rightarrow> bool" where
  \<comment> \<open>the preview of one message raises: its text is what \<open>json.loads\<close> finds under
      \<open>content\<close> for a text message (a string where that fails), and the line formats the
      timestamp and takes \<open>message_text[:30]\<close>, both outside the preview's own \<open>try\<close>\<close>
  "preview_raises lib msg =
     (if localtime_ok lib (get_or 0 (timestamp msg))
      then get_or 0 (msg_type msg) = 1 \<and>
           (case json_loads lib (get_or [] (content msg)) of
              Some (JObject kvs) \<Rightarrow>
                (case map_of kvs ''content'' of None \<Rightarrow> False | Some v \<Rightarrow> \<not> sliceable v)
            | _ \<Rightarrow> False)
      else True)"

fun scan_sessions ::
  "pylib \<Rightarrow> world \<Rightarrow> chat_session list \<Rightarrow> manager \<Rightarrow> manager \<times> event list \<times> exn option" where
  \<comment> \<open>\<open>for i, session in enumerate(sessions[:max_scan])\<close>; \<open>Some e\<close> when \<open>e\<close> was raised
      outside the handler of a message and ended the loop\<close>
  "scan_sessions lib w [] s = (s, [], None)"
| "scan_sessions lib w (session # sessions) s =
     (if stopped s then (s, [], None)
      else
        (case talker_id session of
           None \<Rightarrow> scan_sessions lib w sessions s
         | Some talker \<Rightarrow>
             if talker = 0 then scan_sessions lib w sessions s
             else if \<not> localtime_ok lib (get_or 0 (last_msg_timestamp session))
               then (s, [], Some (OSError ''localtime''))
             else
               (let stype = get_or 1 (session_type session);
                    fetch = GetSessionMessages talker stype 10
                in case get_session_messages_response w talker stype 10 of
                     Inl err \<Rightarrow>
                       (case scan_sessions lib w sessions s of
                          (s2, ev2, raised) \<Rightarrow> (s2, fetch # ev2, raised))
                   | Inr messages \<Rightarrow>
                       if list_ex (preview_raises lib) (take 3 messages)
                       then (s, [fetch], Some (TypeError ''preview''))
                       else
                         (case process_messages lib w talker stype messages s of
                            (s1, ev1) \<Rightarrow>
                              (case scan_sessions lib w sessions s1 of
                                 (s2, ev2, raised) \<Rightarrow> (s2, fetch # ev1 @ ev2, raised))))))"

definition sleep_scan_interval :: "manager \<Rightarrow> event list" where
  \<comment> \<open>\<open>time.sleep(self.scan_interval)\<close> at the end of a pass; when it raises, the handler of
      the pass sleeps 10 seconds\<close>
  "sleep_scan_interval s =
     (case getattr s ''scan_interval'' of
        Inl e \<Rightarrow> [Sleep 10]
      | Inr n \<Rightarrow> if n < 0 then [Sleep 10] else [Sleep n])"

definition overview_raises :: "pylib \<Rightarrow> chat_session list \<Rightarrow> bool" where
  \<comment> \<open>the overview of the first ten sessions formats each positive timestamp\<close>
  "overview_raises lib sessions =
     list_ex (\<lambda>session. get_or 0 (last_msg_timestamp session) > 0 \<and>
                        \<not> localtime_ok lib (get_or 0 (last_msg_timestamp session)))
       (take 10 sessions)"

definition worker_iteration :: "pylib \<Rightarrow> world \<Rightarrow> manager \<Rightarrow> manager \<times> event list" where
  \<comment> \<open>one pass of the \<open>while\<close> loop of \<open>_auto_reply_worker\<close>; what is raised outside the
      handler of a message is caught by the handler of the pass, which sleeps 10 seconds\<close>
  "worker_iteration lib w s =
     (case get_sessions_response w of
        Inl err \<Rightarrow> (s, [GetSessions, Sleep 10])
      | Inr sessions \<Rightarrow>
          if sessions = [] then (s, [GetSessions, Sleep 8])
          else if overview_raises lib sessions then (s, [GetSessions, Sleep 10])
          else
            (case scan_sessions lib w (take (min 20 (length sessions)) sessions) s of
               (s1, ev, None) \<Rightarrow> (s1, GetSessions # ev @ sleep_scan_interval s1)
             | (s1, ev, Some e) \<Rightarrow> (s1, GetSessions # ev @ [Sleep 10])))"

fun auto_reply_worker :: "pylib \<Rightarrow> world list \<Rightarrow> manager \<Rightarrow> manager \<times> event list" where
  \<comment> \<open>\<open>_auto_reply_worker\<close>, for as many passes as there are worlds\<close>
  "auto_reply_worker lib [] s = (s, [])"
| "auto_reply_worker lib (w # ws) s =
     (if stopped s then (s, [])
      else (case worker_iteration lib w s of
              (s1, ev1) \<Rightarrow>
                (case auto_reply_worker lib ws s1 of (s2, ev2) \<Rightarrow> (s2, ev1 @ ev2))))"

fun is_send :: "event \<Rightarrow> bool" where
  \<comment> \<open>the event is a call of \<open>send_message\<close>\<close>
  "is_send (SendMessage receiver reply stype) = True"
| "is_send ev = False"

definition insert_all :: "('a set \<Rightarrow> 'a list) \<Rightarrow> 'a list \<Rightarrow> 'a set" where
  \<comment> \<open>the processed set after the identities of the list went through \<open>mark_processed\<close>
      one after the other, first to last, starting from the empty set\<close>
  "insert_all order ids = foldl (\<lambda>processed i. mark_processed order i processed) {} ids"

section \<open>The matcher with its console output\<close>






section \<open>Notions of the specification\<close>

definition rule_holds :: "pylib \<Rightarrow> string \<Rightarrow> rule \<Rightarrow> bool" where
  \<comment> \<open>the predicate of the rule's match kind is true of the text: the \<open>try\<close> block of
      the matcher, run on the trimmed keyword, sets \<open>matched\<close> to \<open>True\<close>\<close>
  "rule_holds lib message_text r =
     (rule_predicate lib r (py_strip (keyword r)) message_text = Some True)"

definition enabled_rules_in_order :: "database \<Rightarrow> string \<Rightarrow> rule list" where
  \<comment> \<open>the enabled rules of the account, by priority descending, ties by creation time
      ascending\<close>
  "enabled_rules_in_order d uid =
     sort_key (\<lambda>r. (- priority r, created_time r))
       (filter (\<lambda>r. rule_account_uid r = uid \<and> enabled r) (auto_reply_rules d))"

section \<open>A concrete scenario\<close>

text \<open>
  An instance of the library parameters that agrees with Python on the inputs of the
  scenario: \<open>.*\<close> matches every string and \<open>(\<close> does not compile; \<open>cat\<close> and
  \<open>hello\<close> are not JSON documents; the MD5 digests of \<open>cat\<close> and \<open>hello\<close> start with
  \<open>d077f244\<close> and \<open>5d41402a\<close>; \<open>time.localtime\<close> takes the timestamps of 1970 to 2106.
  The scenario has no fuzzy and no word_boundary rule and never fills the processed set,
  so the other three parameters are not consulted.
\<close>

definition example_lib :: pylib where
  "example_lib =
     \<lparr>re_search = (\<lambda>p t ci. if p = ''.*'' then Some True else None),
      re_escape = (\<lambda>t. t),
      seq_ratio = (\<lambda>a b. if a = b then 1 else 0),
      md5_hex8 = (\<lambda>t. if t = ''cat'' then ''d077f244''
                       else if t = ''hello'' then ''5d41402a'' else ''00000000''),
      json_loads = (\<lambda>t. None),
      set_order = sorted_list_of_set,
      localtime_ok = (\<lambda>t. 0 \<le> t \<and> t < 4294967296)\<rparr>"

definition mk_rule :: "int \<Rightarrow> string \<Rightarrow> string \<Rightarrow> int \<Rightarrow> real \<Rightarrow> string \<Rightarrow> rule" where
  \<comment> \<open>an enabled, case-insensitive rule of account 1001\<close>
  "mk_rule i kw mt prio created reply =
     \<lparr>rule_id = i, rule_account_uid = ''1001'', keyword = kw, reply_content = reply,
      match_type = mt, case_sensitive = False, enabled = True, priority = prio,
      description = [], created_time = created, updated_time = created\<rparr>"

definition example_db :: database where
  \<comment> \<open>rule 1 (priority 5, contains "a") was created before rule 2 (priority 10, exact "cat")\<close>
  "example_db =
     \<lparr>auto_reply_rules =
        [mk_rule 1 ''a'' ''contains'' 5 100 ''reply A'',
         mk_rule 2 ''cat'' ''exact'' 10 200 ''reply B''],
      auto_reply_logs = [],
      auto_reply_stats = Map.empty,
      account_configs = [''1001'' \<mapsto>
        \<lparr>cfg_auto_reply_enabled = True, cfg_reply_delay_min = 2, cfg_reply_delay_max = 8,
         cfg_daily_limit = 100, cfg_scan_interval = 30\<rparr>]\<rparr>"

definition db_with_rules :: "rule list \<Rightarrow> database" where
  \<comment> \<open>the scenario's database with another rule table\<close>
  "db_with_rules rules = example_db\<lparr>auto_reply_rules := rules\<rparr>"

definition example_msg :: message where
  \<comment> \<open>the text message "cat" from user 42\<close>
  "example_msg =
     \<lparr>sender_uid = Some 42, msg_type = Some 1, timestamp = Some 1000000, msg_key = Some 7,
      msg_seqno = Some 3, content = Some ''cat''\<rparr>"

definition example_world :: world where
  \<comment> \<open>50 seconds after the message; one session; the service accepts every send\<close>
  "example_world =
     \<lparr>clock = 1000050, today_iso = ''2026-01-01'',
      get_sessions_response =
        Inr [\<lparr>talker_id = Some 42, session_type = Some 1, last_msg_timestamp = Some 1000000\<rparr>],
      get_session_messages_response = (\<lambda>talker stype size. Inr [example_msg]),
      send_message_response = (\<lambda>receiver reply stype. None),
      random_source = (\<lambda>a b. 0)\<rparr>"

definition started_manager :: manager where
  \<comment> \<open>the manager of account 1001 after \<open>__init__\<close> and \<open>start_auto_reply_listener\<close>\<close>
  "started_manager =
     (init_manager example_db ''1001'' ''2026-01-01'')
       \<lparr>auto_reply_enabled := True, stop_listening := False\<rparr>"

definition patched_manager :: manager where
  \<comment> \<open>the started manager after \<open>min_delay\<close> and \<open>max_delay\<close> were assigned from outside
      the class (nothing in the repository does)\<close>
  "patched_manager =
     started_manager\<lparr>attrs := (attrs started_manager)(''min_delay'' \<mapsto> 2, ''max_delay'' \<mapsto> 8)\<rparr>"

definition handled_once :: manager where
  \<comment> \<open>the patched manager after it handled the scenario's message\<close>
  "handled_once = fst (process_message example_lib example_world 42 1 example_msg patched_manager)"

section \<open>Evaluating the scenario\<close>

lemmas string_defs = py_strip_def isspace_def py_lower_def lower_char_def startswith_def
  endswith_def py_split_def str_int_def digit_char_def str_opt_def fmt_opt_def get_or_def

lemmas scenario_defs = example_lib_def example_db_def db_with_rules_def example_msg_def
  example_world_def started_manager_def mk_rule_def init_manager_def load_account_config_def
  update_today_count_def get_account_config_def get_reply_stats_def patched_manager_def

lemmas matcher_defs = match_auto_reply_def get_auto_reply_rules_def rule_predicate_def
  match_result_def rule_holds_def enabled_rules_in_order_def word_anchor_def Let_def

section \<open>The rule matcher\<close>

lemma match_rules_find:
  "match_rules lib t rules =
     map_option match_result
       (find (\<lambda>r. py_strip (keyword r) \<noteq> [] \<and> rule_holds lib t r) rules)"
  by (induction rules) (auto simp: Let_def rule_holds_def split: option.splits)

lemma sorted_map_fst_of_pair:
  "sorted (map (\<lambda>r. (f r, g r)) ys) \<Longrightarrow> sorted (map f ys)"
  by (induction ys) (auto simp: less_le)

text \<open>
  The rows come from the database already in the order of the query, so the stable sort
  of \<open>match_auto_reply\<close> (\<open>rules.sort(key=priority, reverse=True)\<close>) leaves them in place.
\<close>

lemma python_sort_after_sql_order:
  "sort_key (\<lambda>x. - priority x) (sort_key (\<lambda>r. (- priority r, created_time r)) xs) =
     sort_key (\<lambda>r. (- priority r, created_time r)) xs"
  by (rule sort_key_id_if_sorted) (rule sorted_map_fst_of_pair, rule sorted_sort_key)

lemma match_rules_skip:
  assumes "py_strip (keyword r) = [] \<or> rule_predicate lib r (py_strip (keyword r)) t \<noteq> Some True"
  shows "match_rules lib t (pre @ r # post) = match_rules lib t (pre @ post)"
  using assms by (induction pre) (auto simp: Let_def split: option.splits)

lemma find_SomeD: "find P xs = Some x \<Longrightarrow> P x \<and> x \<in> set xs"
  by (induction xs) (auto split: if_splits)

lemma match_auto_reply_find:
  "match_auto_reply lib d uid t =
     (if py_strip t = [] then None
      else map_option match_result
        (find (\<lambda>r. py_strip (keyword r) \<noteq> [] \<and> rule_holds lib t r)
          (enabled_rules_in_order d uid)))"
proof -
  have "py_strip [] = []" by (simp add: py_strip_def)
  then show ?thesis
    by (auto simp: match_auto_reply_def get_auto_reply_rules_def enabled_rules_in_order_def
        Let_def python_sort_after_sql_order match_rules_find)
qed











section \<open>The matcher's exceptions\<close>

text \<open>
  On a console that takes every line, the matcher is a total function into an option:
  the result is none or the record of an enabled rule of the account whose keyword is not
  empty after trimming and whose predicate evaluated to true.
\<close>

lemma match_auto_reply_none_or_matched_rule:
  "match_auto_reply lib d uid t = None \<or>
   (\<exists>r \<in> set (auto_reply_rules d).
      enabled r \<and> rule_account_uid r = uid \<and> py_strip (keyword r) \<noteq> [] \<and>
      rule_predicate lib r (py_strip (keyword r)) t = Some True \<and>
      match_auto_reply lib d uid t = Some (match_result r))"
proof (cases "match_auto_reply lib d uid t")
  case None
  then show ?thesis by simp
next
  case (Some m)
  let ?P = "\<lambda>r. py_strip (keyword r) \<noteq> [] \<and> rule_holds lib t r"
  from Some obtain r where f: "find ?P (enabled_rules_in_order d uid) = Some r"
    and m: "m = match_result r"
    unfolding match_auto_reply_find by (auto split: if_splits)
  from find_SomeD [OF f] have "?P r" and "r \<in> set (enabled_rules_in_order d uid)"
    by blast+
  with Some m show ?thesis
    by (auto simp: rule_holds_def enabled_rules_in_order_def)
qed







section \<open>Message identity\<close>

text \<open>
  Claim C9: the identity is a function of the talker id and of the message's sender id,
  timestamp, message key, sequence number and content alone: two calls that agree on
  these return the same string, whatever else the two messages hold.
\<close>

theorem generate_message_id_deterministic:
  assumes "sender_uid m1 = sender_uid m2" and "timestamp m1 = timestamp m2"
      and "msg_key m1 = msg_key m2" and "msg_seqno m1 = msg_seqno m2"
      and "content m1 = content m2"
  shows "generate_message_id lib talker m1 = generate_message_id lib talker m2"
  using assms by (simp add: generate_message_id_def)

lemma scenario_message_id:
  "generate_message_id example_lib 42 example_msg = ''42_42_1000000_7_3_d077f244''"
  by (simp add: generate_message_id_def scenario_defs string_defs)

theorem generate_message_id_deterministic_witness:
  "generate_message_id example_lib 42 example_msg =
     generate_message_id example_lib 42 (example_msg\<lparr>msg_type := Some 2\<rparr>)
   \<and> generate_message_id example_lib 42 example_msg = ''42_42_1000000_7_3_d077f244''"
proof -
  have "generate_message_id example_lib 42 example_msg =
     generate_message_id example_lib 42 (example_msg\<lparr>msg_type := Some 2\<rparr>)"
    by (rule generate_message_id_deterministic) simp_all
  with scenario_message_id show ?thesis by simp
qed

section \<open>The message pipeline\<close>

lemma scenario_match:
  "match_auto_reply example_lib example_db ''1001'' ''cat'' =
     Some (match_result (mk_rule 2 ''cat'' ''exact'' 10 200 ''reply B''))"
  by (simp add: matcher_defs scenario_defs string_defs)

lemma scenario_first_handling:
  "process_message example_lib example_world 42 1 example_msg patched_manager =
     (patched_manager\<lparr>processed_messages := {''42_42_1000000_7_3_d077f244''},
                      replied_messages := {''42_42_1000000_7_3_d077f244''}\<rparr>,
      [Sleep 2, SendMessage 42 ''reply B'' 1],
      Raised (AttributeError ''add_reply_log''))"
  apply (simp add: process_message_def scenario_message_id Let_def)
  apply (simp add: scenario_defs string_defs mark_processed_def decode_content_def
      scenario_match [unfolded scenario_defs] reply_to_def getattr_def match_result_def
      randint_def)
  done

text \<open>
  Claim C3: whenever the identity of a message is in the processed set, handling the
  message sends nothing, makes no other call and leaves the state as it is; the message
  is skipped as the account's own, as not a text, or as already processed. The state and
  the world are arbitrary, so this holds at every later pass of the loop for as long as the
  identity stays in the set.
\<close>

theorem processed_message_is_not_replied_again:
  assumes "generate_message_id lib talker msg \<in> processed_messages s"
  shows "fst (process_message lib w talker stype msg s) = s \<and>
         fst (snd (process_message lib w talker stype msg s)) = [] \<and>
         snd (snd (process_message lib w talker stype msg s))
           \<in> {SkippedOwn, SkippedNonText, SkippedProcessed}"
  using assms by (simp add: process_message_def Let_def)

text \<open>
  In the scenario the first handling of the message sends the reply and inserts the
  identity; the second handling sends nothing.
\<close>

theorem processed_message_is_not_replied_again_witness:
  "fst (snd (process_message example_lib example_world 42 1 example_msg patched_manager))
     = [Sleep 2, SendMessage 42 ''reply B'' 1] \<and>
   generate_message_id example_lib 42 example_msg \<in> processed_messages handled_once \<and>
   fst (process_message example_lib example_world 42 1 example_msg handled_once) = handled_once \<and>
   fst (snd (process_message example_lib example_world 42 1 example_msg handled_once)) = [] \<and>
   snd (snd (process_message example_lib example_world 42 1 example_msg handled_once))
     \<in> {SkippedOwn, SkippedNonText, SkippedProcessed}"
proof -
  have m: "generate_message_id example_lib 42 example_msg \<in> processed_messages handled_once"
    by (simp add: handled_once_def scenario_first_handling scenario_message_id)
  from processed_message_is_not_replied_again [OF m, of example_world 1] m
  show ?thesis by (simp add: scenario_first_handling)
qed

text \<open>
  Claim C7: a message whose timestamp lies more than 86400 seconds before the time taken
  at the start of the pass is skipped before its content is decoded and before any rule is
  matched: nothing is sent, nothing is called and the state is unchanged, whatever the
  text and whether or not the message was seen before.
\<close>

theorem stale_message_is_skipped:
  assumes "timestamp msg = Some t" and "clock w - real_of_int t > 86400"
  shows "fst (process_message lib w talker stype msg s) = s \<and>
         fst (snd (process_message lib w talker stype msg s)) = [] \<and>
         snd (snd (process_message lib w talker stype msg s))
           \<in> {SkippedOwn, SkippedNonText, SkippedProcessed, SkippedStale}"
  using assms by (simp add: process_message_def Let_def get_or_def)

text \<open>
  The scenario's message, 90000 seconds old and never seen: its text matches rule 2, and
  it is skipped as stale.
\<close>

theorem stale_message_is_skipped_witness:
  "timestamp example_msg = Some 1000000 \<and>
   clock (example_world\<lparr>clock := 1090000\<rparr>) - real_of_int 1000000 > 86400 \<and>
   match_auto_reply example_lib (db patched_manager) (account_uid patched_manager) ''cat''
     \<noteq> None \<and>
   generate_message_id example_lib 42 example_msg \<notin> processed_messages patched_manager \<and>
   process_message example_lib (example_world\<lparr>clock := 1090000\<rparr>) 42 1 example_msg
       patched_manager
     = (patched_manager, [], SkippedStale)"
proof -
  have t: "timestamp example_msg = Some 1000000"
    by (simp add: example_msg_def)
  have c: "clock (example_world\<lparr>clock := 1090000\<rparr>) - real_of_int 1000000 > 86400"
    by simp
  have d: "db patched_manager = example_db" "account_uid patched_manager = ''1001''"
    by (simp_all add: scenario_defs)
  have n: "generate_message_id example_lib 42 example_msg \<notin> processed_messages patched_manager"
    by (simp add: scenario_defs)
  have o: "snd (snd (process_message example_lib (example_world\<lparr>clock := 1090000\<rparr>) 42 1
      example_msg patched_manager)) = SkippedStale"
    using n by (simp add: process_message_def Let_def scenario_message_id)
      (simp add: scenario_defs string_defs)
  from stale_message_is_skipped [OF t c, of example_lib 42 1 patched_manager] t c n o
  show ?thesis
    by (simp add: d scenario_match prod_eq_iff)
qed

section \<open>Delay and delivery\<close>

text \<open>
  \<open>load_account_config\<close> assigns \<open>reply_delay_min\<close> and \<open>reply_delay_max\<close>; the reply
  branch reads \<open>min_delay\<close> and \<open>max_delay\<close>, which no code of the repository assigns.
  Reading \<open>self.min_delay\<close> raises, the handler around the message catches it, and
  neither the sleep nor \<open>send_message\<close> is reached.
\<close>

lemma reply_to_attrs: "attrs (fst (reply_to w talker stype i rr s)) = attrs s"
  by (simp add: reply_to_def Let_def split: sum.splits option.splits)

lemma reply_to_no_event:
  "attrs s ''min_delay'' = None \<Longrightarrow> fst (snd (reply_to w talker stype i rr s)) = []"
  by (simp add: reply_to_def getattr_def split: sum.splits option.splits)

lemma process_message_attrs: "attrs (fst (process_message lib w talker stype msg s)) = attrs s"
  by (simp add: process_message_def Let_def reply_to_attrs split: pyjson.splits option.splits)

lemma process_message_no_event:
  "attrs s ''min_delay'' = None \<Longrightarrow> fst (snd (process_message lib w talker stype msg s)) = []"
  by (simp add: process_message_def Let_def reply_to_no_event split: pyjson.splits option.splits)

lemma handle_message_attrs: "attrs (fst (handle_message lib w talker stype msg s)) = attrs s"
  by (simp add: handle_message_def process_message_attrs)

lemma handle_message_no_event:
  "attrs s ''min_delay'' = None \<Longrightarrow> fst (snd (handle_message lib w talker stype msg s)) = []"
  by (simp add: handle_message_def process_message_no_event)

text \<open>
  A message whose timestamp the platform cannot format is left as it was found: the first
  log line of its turn raises before any check, so it is neither marked nor answered. On
  any other message the turn is \<open>process_message\<close>.
\<close>

lemma handle_message_bad_timestamp:
  "\<not> localtime_ok lib (get_or 0 (timestamp msg)) \<Longrightarrow>
     handle_message lib w talker stype msg s = (s, [], Raised (OSError ''localtime''))"
  by (simp add: handle_message_def)

lemma handle_message_good_timestamp:
  "localtime_ok lib (get_or 0 (timestamp msg)) \<Longrightarrow>
     handle_message lib w talker stype msg s = process_message lib w talker stype msg s"
  by (simp add: handle_message_def)

lemma process_messages_no_event:
  "attrs s ''min_delay'' = None \<Longrightarrow>
     snd (process_messages lib w talker stype msgs s) = [] \<and>
     attrs (fst (process_messages lib w talker stype msgs s)) = attrs s"
proof (induction msgs arbitrary: s)
  case Nil
  then show ?case by simp
next
  case (Cons msg msgs)
  obtain s1 ev1 out where p: "handle_message lib w talker stype msg s = (s1, ev1, out)"
    by (cases "handle_message lib w talker stype msg s") auto
  from p handle_message_attrs [of lib w talker stype msg s]
  have a: "attrs s1 = attrs s" by simp
  from p handle_message_no_event [OF Cons.prems, of lib w talker stype msg]
  have e: "ev1 = []" by simp
  from a Cons.prems have "attrs s1 ''min_delay'' = None" by simp
  from Cons.IH [OF this] a e p show ?case
    by (auto split: prod.splits)
qed

lemma scan_sessions_no_send:
  "attrs s ''min_delay'' = None \<Longrightarrow>
     filter is_send (fst (snd (scan_sessions lib w sessions s))) = [] \<and>
     attrs (fst (scan_sessions lib w sessions s)) = attrs s"
proof (induction sessions arbitrary: s)
  case Nil
  then show ?case by simp
next
  case (Cons session sessions)
  show ?case
  proof (cases "talker_id session")
    case None
    with Cons show ?thesis by simp
  next
    case (Some talker)
    let ?stype = "get_or 1 (session_type session)"
    show ?thesis
    proof (cases "get_session_messages_response w talker ?stype 10")
      case (Inl err)
      from Cons.IH [OF Cons.prems] Some Inl Cons.prems show ?thesis
        by (cases "scan_sessions lib w sessions s") (auto simp: Let_def)
    next
      case (Inr messages)
      obtain s1 ev1 where p: "process_messages lib w talker ?stype messages s = (s1, ev1)"
        by (cases "process_messages lib w talker ?stype messages s") auto
      from p process_messages_no_event [OF Cons.prems, of lib w talker ?stype messages]
      have e: "ev1 = []" and a: "attrs s1 = attrs s" by simp_all
      from a Cons.prems have "attrs s1 ''min_delay'' = None" by simp
      from Cons.IH [OF this] Cons.IH [OF Cons.prems] a e p Some Inr show ?thesis
        by (cases "scan_sessions lib w sessions s1") (auto simp: Let_def)
    qed
  qed
qed

lemma worker_iteration_no_send:
  "attrs s ''min_delay'' = None \<Longrightarrow>
     filter is_send (snd (worker_iteration lib w s)) = [] \<and>
     attrs (fst (worker_iteration lib w s)) = attrs s"
proof (cases "get_sessions_response w")
  case (Inl err)
  then show ?thesis by (simp add: worker_iteration_def)
next
  case (Inr sessions)
  assume m: "attrs s ''min_delay'' = None"
  let ?scan = "scan_sessions lib w (take (min 20 (length sessions)) sessions) s"
  have q: "filter is_send (sleep_scan_interval (fst ?scan)) = []"
    by (simp add: sleep_scan_interval_def split: sum.splits)
  obtain s1 ev raised where p: "?scan = (s1, ev, raised)"
    by (cases ?scan) auto
  from scan_sessions_no_send [OF m, of lib w "take (min 20 (length sessions)) sessions"] q p Inr
  show ?thesis
    by (cases raised) (auto simp: worker_iteration_def)
qed

lemma auto_reply_worker_no_send:
  "attrs s ''min_delay'' = None \<Longrightarrow>
     filter is_send (snd (auto_reply_worker lib ws s)) = []"
proof (induction ws arbitrary: s)
  case Nil
  then show ?case by simp
next
  case (Cons w ws)
  obtain s1 ev1 where p: "worker_iteration lib w s = (s1, ev1)"
    by (cases "worker_iteration lib w s") auto
  from p worker_iteration_no_send [OF Cons.prems, of lib w]
  have e: "filter is_send ev1 = []" and a: "attrs s1 = attrs s" by simp_all
  from a Cons.prems have "attrs s1 ''min_delay'' = None" by simp
  from Cons.IH [OF this] e p show ?case
    by (auto split: prod.splits)
qed

lemma init_manager_no_min_delay: "attrs (init_manager d uid today) ''min_delay'' = None"
  by (simp add: init_manager_def load_account_config_def update_today_count_def
      split: option.splits)

text \<open>
  A manager as \<open>__init__\<close> builds it, once started, never calls \<open>send_message\<close>: not for
  any database, account, library, number of passes or answers of the remote service.
\<close>

lemma started_engine_never_sends:
  "filter is_send
     (snd (auto_reply_worker lib ws
        ((init_manager d uid today)\<lparr>auto_reply_enabled := True, stop_listening := False\<rparr>)))
     = []"
  by (rule auto_reply_worker_no_send) (simp add: init_manager_no_min_delay)

text \<open>
  Claim C1 says that a message whose text matches an enabled rule, below the daily limit,
  is answered after a sleep of between \<open>reply_delay_min\<close> and \<open>reply_delay_max\<close>
  seconds. In the scenario the text "cat" matches rule 2, the limit is 100 and no reply
  was sent today, the configured delays are 2 and 8; the message is marked as processed
  and then the handling ends in \<open>AttributeError\<close> for \<open>min_delay\<close>, with no sleep and no
  call of \<open>send_message\<close>.
\<close>

theorem matching_message_is_not_delivered:
  "match_auto_reply example_lib (db started_manager) (account_uid started_manager) ''cat''
     = Some (match_result (mk_rule 2 ''cat'' ''exact'' 10 200 ''reply B'')) \<and>
   attrs started_manager ''daily_limit'' = Some 100 \<and>
   today_reply_count started_manager = 0 \<and>
   attrs started_manager ''reply_delay_min'' = Some 2 \<and>
   attrs started_manager ''reply_delay_max'' = Some 8 \<and>
   process_message example_lib example_world 42 1 example_msg started_manager =
     (started_manager\<lparr>processed_messages := {''42_42_1000000_7_3_d077f244''}\<rparr>, [],
      Raised (AttributeError ''min_delay''))"
proof -
  have d: "db started_manager = example_db" "account_uid started_manager = ''1001''"
    by (simp_all add: scenario_defs)
  have a: "attrs started_manager ''daily_limit'' = Some 100"
      "today_reply_count started_manager = 0"
      "attrs started_manager ''reply_delay_min'' = Some 2"
      "attrs started_manager ''reply_delay_max'' = Some 8"
    by (simp_all add: scenario_defs)
  have p: "process_message example_lib example_world 42 1 example_msg started_manager =
     (started_manager\<lparr>processed_messages := {''42_42_1000000_7_3_d077f244''}\<rparr>, [],
      Raised (AttributeError ''min_delay''))"
    apply (simp add: process_message_def scenario_message_id Let_def)
    apply (simp add: scenario_defs string_defs mark_processed_def decode_content_def
        scenario_match [unfolded scenario_defs] reply_to_def getattr_def match_result_def)
    done
  from d a p scenario_match show ?thesis by simp
qed

section \<open>Bookkeeping after a successful send\<close>

text \<open>
  The logging method of \<open>AutoReplyDatabase\<close> is \<open>log_auto_reply\<close>: it appends one row to
  the log and adds one to the lifetime counter and to today's counter.
\<close>

lemma log_auto_reply_appends_and_counts:
  "auto_reply_logs (log_auto_reply d uid sender received reply kw mt stype now today)
     = auto_reply_logs d @
       [\<lparr>log_account_uid = uid, log_sender_uid = sender, received_message = received,
         reply_message = reply, keyword_matched = kw, log_match_type = mt,
         log_created_time = now, log_session_type = stype\<rparr>] \<and>
   map_option total_replies
       (auto_reply_stats (log_auto_reply d uid sender received reply kw mt stype now today) uid)
     = Some (case auto_reply_stats d uid of None \<Rightarrow> 1 | Some st \<Rightarrow> total_replies st + 1) \<and>
   map_option today_replies
       (auto_reply_stats (log_auto_reply d uid sender received reply kw mt stype now today) uid)
     = Some (case auto_reply_stats d uid of None \<Rightarrow> 1
             | Some st \<Rightarrow> (if last_update_date st = today then today_replies st else 0) + 1)"
  by (simp add: log_auto_reply_def update_stats_def Let_def split: option.splits)

lemma add_reply_log_is_no_method: "''add_reply_log'' \<notin> set AutoReplyDatabase_methods"
  by (simp add: AutoReplyDatabase_methods_def)

text \<open>
  The branch after a successful send is not reached by a manager the repository builds
  (lemma \<open>started_engine_never_sends\<close>): no run has a successful delivery to keep books
  of. The branch itself calls \<open>self.db.add_reply_log\<close>, which the database class does
  not define. On the manager with \<open>min_delay\<close> and \<open>max_delay\<close> assigned from outside,
  the call raises right after the identity was added to the replied set: the log stays
  empty, the account has no statistics row and today's counter is unchanged.
\<close>

lemma unreachable_success_branch_raises_before_logging:
  "send_message_response example_world 42 ''reply B'' 1 = None \<and>
   fst (snd (process_message example_lib example_world 42 1 example_msg patched_manager))
     = [Sleep 2, SendMessage 42 ''reply B'' 1] \<and>
   snd (snd (process_message example_lib example_world 42 1 example_msg patched_manager))
     = Raised (AttributeError ''add_reply_log'') \<and>
   replied_messages handled_once = {generate_message_id example_lib 42 example_msg} \<and>
   db handled_once = db patched_manager \<and>
   auto_reply_logs (db handled_once) = [] \<and>
   auto_reply_stats (db handled_once) ''1001'' = None \<and>
   today_reply_count handled_once = today_reply_count patched_manager"
  by (simp add: handled_once_def scenario_first_handling scenario_message_id)
    (simp add: scenario_defs)

section \<open>The pause on an empty session list\<close>

text \<open>
  Claim C6 says that a pass which finds the session list empty sleeps the account's
  configured scan interval. The code sleeps the literal 8 there; the end of a full pass
  sleeps \<open>self.scan_interval\<close>. In the scenario the account's interval is 30 seconds:
  the pass over an empty list sleeps 8, the pass over a non-empty list sleeps 30.
\<close>

theorem empty_session_list_sleeps_eight:
  "attrs started_manager ''scan_interval'' = Some 30 \<and>
   worker_iteration example_lib (example_world\<lparr>get_sessions_response := Inr []\<rparr>)
       started_manager
     = (started_manager, [GetSessions, Sleep 8]) \<and>
   snd (worker_iteration example_lib
          (example_world\<lparr>get_session_messages_response := (\<lambda>talker stype size. Inr [])\<rparr>)
          started_manager)
     = [GetSessions, GetSessionMessages 42 1 10, Sleep 30]"
  by (simp add: worker_iteration_def overview_raises_def sleep_scan_interval_def getattr_def
      stopped_def scenario_defs get_or_def)

section \<open>The cap of the processed set\<close>

text \<open>
  The size bound: when the set is finite with at most 1000 entries before
  \<open>mark_processed\<close>, and \<open>list(...)\<close> enumerates each element of the set once, it has at
  most 1000 entries afterwards, since an overflow discards 500 of its 1001 entries.
\<close>

lemma mark_processed_cap:
  assumes "finite processed" and "card processed \<le> 1000"
      and "set (order (insert i processed)) = insert i processed"
      and "distinct (order (insert i processed))"
  shows "card (mark_processed order i processed) \<le> 1000"
proof -
  let ?added = "insert i processed"
  show ?thesis
  proof (cases "card ?added > 1000")
    case False
    then show ?thesis by (simp add: mark_processed_def Let_def)
  next
    case True
    have fin: "finite ?added" using assms(1) by simp
    have le: "card ?added \<le> 1001" using assms(1,2) by (simp add: card_insert_if)
    have len: "length (order ?added) = card ?added"
      using assms(3,4) distinct_card by fastforce
    have sub: "set (take 500 (order ?added)) \<subseteq> ?added"
      using assms(3) set_take_subset by fastforce
    have "card (set (take 500 (order ?added))) = 500"
      using assms(4) len True by (simp add: distinct_card)
    with sub fin have "card (?added - set (take 500 (order ?added))) = card ?added - 500"
      by (simp add: card_Diff_subset finite_subset)
    with le True show ?thesis by (simp add: mark_processed_def Let_def)
  qed
qed

lemma insert_all_snoc:
  "insert_all order (ids @ [i]) = mark_processed order i (insert_all order ids)"
  by (simp add: insert_all_def)

lemma insert_all_below_cap:
  "k \<le> n \<Longrightarrow> k \<le> 1000 \<Longrightarrow> insert_all order (rev [n - k..<n]) = {n - k..<n}"
proof (induction k)
  case 0
  then show ?case by (simp add: insert_all_def)
next
  case (Suc k)
  then have k: "k \<le> n" "k \<le> 1000" by simp_all
  have s: "Suc (n - Suc k) = n - k"
    using Suc.prems by simp
  have up: "[n - Suc k..<n] = (n - Suc k) # [n - k..<n]"
    using Suc.prems upt_conv_Cons [of "n - Suc k" n] by (simp add: s)
  have ins: "insert (n - Suc k) {n - k..<n} = {n - Suc k..<n}"
    using Suc.prems by auto
  have c: "card {n - Suc k..<n} = Suc k"
    using Suc.prems by simp
  have "insert_all order (rev [n - Suc k..<n])
      = mark_processed order (n - Suc k) (insert_all order (rev [n - k..<n]))"
    by (simp add: up insert_all_snoc)
  also have "\<dots> = mark_processed order (n - Suc k) {n - k..<n}"
    using Suc.IH [OF k] by simp
  also have "\<dots> = {n - Suc k..<n}"
    unfolding mark_processed_def Let_def ins c using Suc.prems by simp
  finally show ?case .
qed

lemma eviction_of_newest:
  assumes "1001 \<le> n" and "n \<le> 1001"
  shows "insert_all sorted_list_of_set (rev [0..<n]) = {500..<n}"
proof -
  have s: "Suc 0 = n - 1000"
    using assms by simp
  have "0 < n"
    using assms by simp
  then have "[0..<n] = 0 # [Suc 0..<n]"
    by (rule upt_conv_Cons)
  then have up: "[0..<n] = 0 # [n - 1000..<n]"
    unfolding s .
  have ins: "insert 0 {n - 1000..<n} = {0..<n}"
    using assms by auto
  have c: "card {0..<n} = n"
    by simp
  have t: "set (take 500 (sorted_list_of_set {0..<n})) = {0..<500}"
    using assms by (simp add: take_upt)
  have "insert_all sorted_list_of_set (rev [0..<n])
      = mark_processed sorted_list_of_set 0 (insert_all sorted_list_of_set (rev [n - 1000..<n]))"
    by (simp add: up insert_all_snoc)
  also have "\<dots> = mark_processed sorted_list_of_set 0 {n - 1000..<n}"
    using insert_all_below_cap [of 1000 n sorted_list_of_set] assms by simp
  also have "\<dots> = {0..<n} - {0..<500}"
    unfolding mark_processed_def Let_def ins c t using assms by simp
  also have "\<dots> = {500..<n}"
    by auto
  finally show ?thesis .
qed

text \<open>
  Claim C5 says that on overflow exactly the 500 least recently inserted identities are
  evicted and the newer ones are kept. The code discards the first 500 entries of
  \<open>list(processed_messages)\<close>; a set keeps no record of the order of insertion, and the
  order of that list is the order of the hash table. Take identities numbered 1000 down to
  0, inserted in that order, and a table that enumerates them in ascending order: the
  insertion of 0, the 1001st, overflows, and what is discarded is 0 to 499, the 500 most
  recently inserted ones, the new one among them; the 501 oldest are kept.
\<close>

theorem overflow_evicts_the_newest_half:
  "insert_all sorted_list_of_set (rev [0..<1001]) = {500..<1001}"
  by (rule eviction_of_newest) simp_all

end
